theory Spec2Isabelle
  imports Complex_Main "HOL-Library.Signed_Division"
begin

section \<open>Time values (package time of the Go standard library)\<close>

text \<open>
  A \<open>time.Time\<close> is modelled by the instant it denotes: the number of nanoseconds since
  0001-01-01T00:00:00Z, the zero value of the Go type. A \<open>time.Duration\<close> is a signed
  64-bit count of nanoseconds. \<open>Time.Sub\<close> saturates at the two ends of that range,
  \<open>Time.Truncate\<close> rounds down to a multiple of the duration counted from the zero time,
  and \<open>Duration.Hours\<close> splits the duration into whole hours and a remainder; its
  float64 result is modelled by the exact rational number, and the conversion
  \<open>int(x)\<close> of a float by truncation toward zero.
\<close>

type_synonym Time = int
type_synonym Duration = int

definition Hour :: Duration where
  "Hour = 3600000000000"

definition maxDuration :: Duration where
  "maxDuration = 2 ^ 63 - 1"

definition minDuration :: Duration where
  "minDuration = - (2 ^ 63)"

definition Sub :: "Time \<Rightarrow> Time \<Rightarrow> Duration" where
  "Sub t u = (let d = t - u in
     if maxDuration < d then maxDuration
     else if d < minDuration then minDuration
     else d)"

definition Truncate :: "Time \<Rightarrow> Duration \<Rightarrow> Time" where
  "Truncate t d = (if d \<le> 0 then t else t - t mod d)"

definition After :: "Time \<Rightarrow> Time \<Rightarrow> bool" where
  "After t u = (u < t)"

definition Before :: "Time \<Rightarrow> Time \<Rightarrow> bool" where
  "Before t u = (t < u)"

definition Hours :: "Duration \<Rightarrow> rat" where
  "Hours d = of_int (d sdiv Hour) + of_int (d smod Hour) / (60 * 60 * 1000000000)"

definition go_int :: "rat \<Rightarrow> int" where
  "go_int x = (if 0 \<le> x then \<lfloor>x\<rfloor> else \<lceil>x\<rceil>)"

section \<open>Role names\<close>

text \<open>
  Modelled from the spec: the constants \<open>users.RoleAdmin\<close>, \<open>users.RoleStudent\<close>,
  \<open>users.RoleFaculty\<close> and \<open>users.RoleWarden\<close> are used by every handler but their
  declaration is not among the sources. The spec names the four roles admin, student,
  faculty and warden, and the \<open>oneof=admin student faculty warden\<close> tag of the
  \<open>Role\<close> field gives the same spelling.
\<close>

definition RoleAdmin :: string where
  "RoleAdmin = ''admin''"

definition RoleStudent :: string where
  "RoleStudent = ''student''"

definition RoleFaculty :: string where
  "RoleFaculty = ''faculty''"

definition RoleWarden :: string where
  "RoleWarden = ''warden''"

section \<open>Tables\<close>

text \<open>
  The structs of \<open>internal/users\<close>, \<open>internal/leaves\<close>, \<open>internal/attendance\<close> and
  \<open>internal/notifications\<close>, with the columns that the handlers read or write. Field
  names carry the table's prefix because several structs share a name (\<open>ID\<close>,
  \<open>StudentID\<close>, \<open>Dept\<close>, \<open>Hostel\<close>). A Go pointer field (\<open>*string\<close>, \<open>*uint\<close>) is an
  \<open>option\<close>, \<open>None\<close> being nil. The notification text is produced by \<open>fmt.Sprintf\<close> from
  the leave's type, dates, status and remarks; the model stores those arguments.
\<close>

record User =
  u_ID :: nat
  u_Name :: string
  u_Email :: string
  u_Role :: string
  u_Dept :: string
  u_Hostel :: "string option"

record LeaveRequest =
  lr_ID :: nat
  lr_StudentID :: nat
  lr_LeaveType :: string
  lr_Reason :: string
  lr_StartDate :: Time
  lr_EndDate :: Time
  lr_Status :: string
  lr_ApprovedBy :: "nat option"
  lr_Remarks :: "string option"
  lr_Dept :: string
  lr_Hostel :: "string option"
  lr_Days :: int
  lr_CreatedAt :: Time
  lr_UpdatedAt :: Time

record Attendance =
  at_ID :: nat
  at_StudentID :: nat
  at_Date :: Time
  at_Present :: bool
  at_MarkedBy :: nat
  at_Subject :: "string option"
  at_Period :: "string option"
  at_CreatedAt :: Time

datatype message = LeaveStatusMessage string Time Time string "string option"

record Notification =
  nt_ID :: nat
  nt_UserID :: nat
  nt_Title :: string
  nt_Message :: message
  nt_Type :: string
  nt_IsRead :: bool
  nt_RelatedID :: "nat option"
  nt_CreatedAt :: Time

text \<open>
  The database behind the global handle \<open>db.DB\<close>: one list of rows per table, kept in
  primary-key order. \<open>Create\<close> gives a new row the next key and appends it, \<open>First\<close>
  with a key returns the first row that carries it, and \<open>Save\<close> rewrites the rows with
  the key of the saved value and stamps \<open>UpdatedAt\<close>. The store itself does not fail:
  the 500 answers that follow a failed \<open>Find\<close>, \<open>Create\<close> or \<open>Save\<close> have no branch here,
  those that follow a \<open>First\<close> which finds no row do. No handler deletes a row, so the
  soft-delete column of \<open>gorm.Model\<close> is left out.
\<close>

record DB =
  users :: "User list"
  leave_requests :: "LeaveRequest list"
  attendances :: "Attendance list"
  notifications :: "Notification list"

definition next_id :: "nat list \<Rightarrow> nat" where
  "next_id ids = Suc (fold max ids 0)"

definition First_user :: "DB \<Rightarrow> nat \<Rightarrow> User option" where
  "First_user db i = find (\<lambda>u. u_ID u = i) (users db)"

definition First_leave :: "DB \<Rightarrow> nat \<Rightarrow> LeaveRequest option" where
  "First_leave db i = find (\<lambda>l. lr_ID l = i) (leave_requests db)"

definition Create_leave :: "DB \<Rightarrow> Time \<Rightarrow> LeaveRequest \<Rightarrow> LeaveRequest \<times> DB" where
  "Create_leave db clock l =
     (let l' = l\<lparr>lr_ID := next_id (map lr_ID (leave_requests db)),
                 lr_CreatedAt := clock, lr_UpdatedAt := clock\<rparr>
      in (l', db\<lparr>leave_requests := leave_requests db @ [l']\<rparr>))"

definition Save_leave :: "DB \<Rightarrow> Time \<Rightarrow> LeaveRequest \<Rightarrow> LeaveRequest \<times> DB" where
  "Save_leave db clock l =
     (let l' = l\<lparr>lr_UpdatedAt := clock\<rparr>
      in (l', db\<lparr>leave_requests :=
                   map (\<lambda>r. if lr_ID r = lr_ID l' then l' else r) (leave_requests db)\<rparr>))"

definition Create_attendance :: "DB \<Rightarrow> Time \<Rightarrow> Attendance \<Rightarrow> Attendance \<times> DB" where
  "Create_attendance db clock a =
     (let a' = a\<lparr>at_ID := next_id (map at_ID (attendances db)), at_CreatedAt := clock\<rparr>
      in (a', db\<lparr>attendances := attendances db @ [a']\<rparr>))"

definition Create_notification :: "DB \<Rightarrow> Time \<Rightarrow> Notification \<Rightarrow> DB" where
  "Create_notification db clock n =
     db\<lparr>notifications := notifications db @
          [n\<lparr>nt_ID := next_id (map nt_ID (notifications db)), nt_CreatedAt := clock\<rparr>]\<rparr>"

section \<open>Requests and responses\<close>

text \<open>
  What the middleware and the router put into the \<open>gin.Context\<close>: the user id (absent
  when \<open>c.Get("userID")\<close> finds nothing), the role of the token, the query parameters
  (the empty string when a parameter is missing), and the clock read by \<open>time.Now\<close>.
\<close>

record Ctx =
  userID :: "nat option"
  role :: string
  now :: Time
  q_status :: string
  q_leave_type :: string
  q_page :: string
  q_limit :: string
  q_student_id :: string
  q_start_date :: string
  q_end_date :: string
  q_subject :: string

type_synonym FieldError = "string \<times> string"

record AttendanceStats =
  st_StudentID :: nat
  st_StudentName :: string
  st_TotalDays :: int
  st_PresentDays :: int
  st_AbsentDays :: int
  st_AttendancePercentage :: rat
  st_LastAttendance :: "Time option"

datatype body =
    ErrorBody string
  | BindError "FieldError list"
  | ValidationFailed "FieldError list"
  | LeaveConflict string string string Time Time
  | LeaveSubmitted LeaveRequest
  | LeaveList "LeaveRequest list" string string nat
  | LeaveDetails LeaveRequest
  | LeaveUpdated LeaveRequest
  | AttendanceMarked Attendance
  | AttendanceList "Attendance list" string string string
  | StatsBody AttendanceStats

text \<open>
  A handler either writes one response with \<open>c.JSON(status, body)\<close> or panics (a nil
  pointer dereference or a failed type assertion; the recovery middleware of
  \<open>gin.Default\<close> then answers 500).
\<close>

datatype response = JSON nat body | Panic

definition StatusOK :: nat where "StatusOK = 200"
definition StatusCreated :: nat where "StatusCreated = 201"
definition StatusBadRequest :: nat where "StatusBadRequest = 400"
definition StatusUnauthorized :: nat where "StatusUnauthorized = 401"
definition StatusForbidden :: nat where "StatusForbidden = 403"
definition StatusNotFound :: nat where "StatusNotFound = 404"
definition StatusInternalServerError :: nat where "StatusInternalServerError = 500"

text \<open>
  \<open>http.StatusConflict\<close> is the status that the specification gives to its Conflict
  errors. No handler writes it: a state or uniqueness conflict is answered with
  \<open>http.StatusBadRequest\<close> and a message of its own.
\<close>

definition StatusConflict :: nat where "StatusConflict = 409"

section \<open>Validation (pkg/validation and the struct tags)\<close>

text \<open>
  The tags are checked by go-playground/validator: the \<open>binding\<close> tags by
  \<open>ShouldBindJSON\<close>, the \<open>validate\<close> tags by \<open>ValidateStruct\<close>. For each field the
  first failing tag is reported. \<open>required\<close> fails on the zero value of the field's type
  (the empty string, 0, \<open>false\<close>, the zero time); \<open>min\<close> and \<open>max\<close> on a string count
  its characters; a tag other than \<open>required\<close> on a nil pointer without \<open>omitempty\<close>
  fails.
\<close>

definition check_field :: "string \<Rightarrow> (string \<times> bool) list \<Rightarrow> FieldError list" where
  "check_field f tags =
     (case filter (\<lambda>(t, ok). \<not> ok) tags of [] \<Rightarrow> [] | (t, ok) # rest \<Rightarrow> [(f, t)])"

definition validateDateRange :: "Time \<Rightarrow> Time \<Rightarrow> bool" where
  "validateDateRange startDate endDate = After endDate startDate"

definition validateFutureDate :: "Time \<Rightarrow> Time \<Rightarrow> bool" where
  "validateFutureDate clock date = (\<not> Before date (Truncate clock (24 * Hour)))"

definition validateLeaveDuration :: "Time \<Rightarrow> Time \<Rightarrow> bool" where
  "validateLeaveDuration startDate endDate =
     (let duration = Sub endDate startDate in duration \<le> 30 * 24 * Hour \<and> duration \<ge> 0)"

record ApplyLeaveRequest =
  al_LeaveType :: string
  al_Reason :: string
  al_StartDate :: Time
  al_EndDate :: Time

definition bind_ApplyLeaveRequest :: "ApplyLeaveRequest \<Rightarrow> FieldError list" where
  "bind_ApplyLeaveRequest r =
     check_field ''LeaveType'' [(''required'', al_LeaveType r \<noteq> [])] @
     check_field ''Reason'' [(''required'', al_Reason r \<noteq> [])] @
     check_field ''StartDate'' [(''required'', al_StartDate r \<noteq> 0)] @
     check_field ''EndDate'' [(''required'', al_EndDate r \<noteq> 0)]"

definition validate_ApplyLeaveRequest :: "Time \<Rightarrow> ApplyLeaveRequest \<Rightarrow> FieldError list" where
  "validate_ApplyLeaveRequest clock r =
     check_field ''LeaveType''
       [(''required'', al_LeaveType r \<noteq> []),
        (''oneof'', al_LeaveType r \<in> set [''medical'', ''personal'', ''emergency'', ''academic''])] @
     check_field ''Reason''
       [(''required'', al_Reason r \<noteq> []),
        (''min'', 10 \<le> length (al_Reason r)),
        (''max'', length (al_Reason r) \<le> 500)] @
     check_field ''StartDate''
       [(''required'', al_StartDate r \<noteq> 0),
        (''future_date'', validateFutureDate clock (al_StartDate r))] @
     check_field ''EndDate''
       [(''required'', al_EndDate r \<noteq> 0),
        (''date_range'', validateDateRange (al_StartDate r) (al_EndDate r)),
        (''leave_duration'', validateLeaveDuration (al_StartDate r) (al_EndDate r))]"

section \<open>Leave handlers (internal/leaves)\<close>

text \<open>
  The rows selected by the query of \<open>ApplyLeave\<close>:
  \<open>student_id = ? AND status IN (pending, approved) AND ((start_date <= S AND
  end_date >= S) OR (start_date <= E AND end_date >= E))\<close>, with \<open>S\<close> and \<open>E\<close> the start
  and end of the new request.
\<close>

definition existingLeaves :: "DB \<Rightarrow> nat \<Rightarrow> Time \<Rightarrow> Time \<Rightarrow> LeaveRequest list" where
  "existingLeaves db studentID S E =
     filter (\<lambda>l. lr_StudentID l = studentID \<and> lr_Status l \<in> set [''pending'', ''approved'']
                \<and> ((lr_StartDate l \<le> S \<and> lr_EndDate l \<ge> S) \<or>
                    (lr_StartDate l \<le> E \<and> lr_EndDate l \<ge> E)))
       (leave_requests db)"

definition leave_days :: "Time \<Rightarrow> Time \<Rightarrow> int" where
  "leave_days startDate endDate = go_int (Hours (Sub endDate startDate) / 24) + 1"

definition ApplyLeave :: "DB \<Rightarrow> Ctx \<Rightarrow> ApplyLeaveRequest \<Rightarrow> response \<times> DB" where
  "ApplyLeave db c input =
     (if bind_ApplyLeaveRequest input \<noteq> []
      then (JSON StatusBadRequest (BindError (bind_ApplyLeaveRequest input)), db)
      else if validate_ApplyLeaveRequest (now c) input \<noteq> []
      then (JSON StatusBadRequest
              (ValidationFailed (validate_ApplyLeaveRequest (now c) input)), db)
      else
       (case userID c of
        None \<Rightarrow> (JSON StatusUnauthorized (ErrorBody ''Unauthorized''), db)
      | Some studentID \<Rightarrow>
          (case First_user db studentID of
             None \<Rightarrow> (JSON StatusInternalServerError (ErrorBody ''Student data not found''), db)
           | Some student \<Rightarrow>
               if length (existingLeaves db studentID (al_StartDate input) (al_EndDate input)) > 0
               then (JSON StatusBadRequest
                       (ErrorBody ''You already have a leave request for this period''), db)
               else
                 let days = leave_days (al_StartDate input) (al_EndDate input);
                     leave = \<lparr>lr_ID = 0, lr_StudentID = studentID,
                              lr_LeaveType = al_LeaveType input, lr_Reason = al_Reason input,
                              lr_StartDate = al_StartDate input, lr_EndDate = al_EndDate input,
                              lr_Status = ''pending'', lr_ApprovedBy = None, lr_Remarks = None,
                              lr_Dept = u_Dept student, lr_Hostel = u_Hostel student,
                              lr_Days = days, lr_CreatedAt = 0, lr_UpdatedAt = 0\<rparr>;
                     (leave', db') = Create_leave db (now c) leave
                 in (JSON StatusCreated (LeaveSubmitted leave'), db'))))"

text \<open>
  \<open>ListLeaves\<close>. The fields \<open>q_page\<close> and \<open>q_limit\<close> hold the results of
  \<open>c.DefaultQuery\<close>. \<open>Order("created_at DESC")\<close> is a sort on the creation time,
  latest first; rows with the same time stay in primary-key order.
\<close>

definition order_desc :: "('a \<Rightarrow> int) \<Rightarrow> 'a list \<Rightarrow> 'a list" where
  "order_desc k xs = sort_key (\<lambda>x. - k x) xs"

definition leaves_response :: "Ctx \<Rightarrow> LeaveRequest list \<Rightarrow> response" where
  "leaves_response c leaves = JSON StatusOK (LeaveList leaves (q_page c) (q_limit c) (length leaves))"

definition ListLeaves :: "DB \<Rightarrow> Ctx \<Rightarrow> response" where
  "ListLeaves db c =
     (let status = q_status c; leaveType = q_leave_type c in
      if role c = RoleStudent then
        (case userID c of
           None \<Rightarrow> Panic
         | Some uid \<Rightarrow>
             leaves_response c (order_desc lr_CreatedAt
               (filter (\<lambda>l. lr_StudentID l = uid
                          \<and> (if status \<noteq> [] then lr_Status l = status else True)
                          \<and> (if leaveType \<noteq> [] then lr_LeaveType l = leaveType else True))
                  (leave_requests db))))
      else if role c = RoleWarden \<or> role c = RoleFaculty \<or> role c = RoleAdmin then
        (if role c = RoleWarden then
           (case userID c of
              None \<Rightarrow> Panic
            | Some uid \<Rightarrow>
                (case First_user db uid of
                   None \<Rightarrow> JSON StatusInternalServerError (ErrorBody ''User not found'')
                 | Some approver \<Rightarrow>
                     (case u_Hostel approver of
                        None \<Rightarrow> Panic
                      | Some h \<Rightarrow>
                          leaves_response c (order_desc lr_CreatedAt
                            (filter (\<lambda>l. lr_Hostel l = Some h
                                       \<and> lr_Status l = (if status \<noteq> [] then status else ''pending'')
                                       \<and> (if leaveType \<noteq> [] then lr_LeaveType l = leaveType else True))
                               (leave_requests db))))))
         else if role c = RoleFaculty then
           (case userID c of
              None \<Rightarrow> Panic
            | Some uid \<Rightarrow>
                (case First_user db uid of
                   None \<Rightarrow> JSON StatusInternalServerError (ErrorBody ''User not found'')
                 | Some approver \<Rightarrow>
                     leaves_response c (order_desc lr_CreatedAt
                       (filter (\<lambda>l. lr_Dept l = u_Dept approver
                                  \<and> lr_Status l = (if status \<noteq> [] then status else ''pending'')
                                  \<and> (if leaveType \<noteq> [] then lr_LeaveType l = leaveType else True))
                          (leave_requests db)))))
         else
           leaves_response c (order_desc lr_CreatedAt
             (filter (\<lambda>l. (if status \<noteq> [] then lr_Status l = status else True)
                        \<and> (if leaveType \<noteq> [] then lr_LeaveType l = leaveType else True))
                (leave_requests db))))
      else JSON StatusForbidden (ErrorBody ''Forbidden''))"

text \<open>
  \<open>GetLeaveDetails\<close>. The path parameter \<open>id\<close> is taken as the number it spells.
\<close>

definition GetLeaveDetails :: "DB \<Rightarrow> Ctx \<Rightarrow> nat \<Rightarrow> response" where
  "GetLeaveDetails db c leaveID =
     (case First_leave db leaveID of
        None \<Rightarrow> JSON StatusNotFound (ErrorBody ''Leave request not found'')
      | Some leave \<Rightarrow>
          if role c = RoleStudent then
            (case userID c of
               None \<Rightarrow> Panic
             | Some uid \<Rightarrow>
                 if lr_StudentID leave \<noteq> uid
                 then JSON StatusForbidden (ErrorBody ''You can only view your own leave requests'')
                 else JSON StatusOK (LeaveDetails leave))
          else if role c = RoleFaculty then
            (case userID c of
               None \<Rightarrow> Panic
             | Some uid \<Rightarrow>
                 (case First_user db uid of
                    None \<Rightarrow> JSON StatusInternalServerError (ErrorBody ''User not found'')
                  | Some approver \<Rightarrow>
                      if u_Dept approver \<noteq> lr_Dept leave
                      then JSON StatusForbidden
                             (ErrorBody ''You can only view leaves from your department'')
                      else JSON StatusOK (LeaveDetails leave)))
          else if role c = RoleWarden then
            (case userID c of
               None \<Rightarrow> Panic
             | Some uid \<Rightarrow>
                 (case First_user db uid of
                    None \<Rightarrow> JSON StatusInternalServerError (ErrorBody ''User not found'')
                  | Some approver \<Rightarrow>
                      if u_Hostel approver = None \<or> lr_Hostel leave = None
                         \<or> u_Hostel approver \<noteq> lr_Hostel leave
                      then JSON StatusForbidden (ErrorBody ''You can only view leaves from your hostel'')
                      else JSON StatusOK (LeaveDetails leave)))
          else JSON StatusOK (LeaveDetails leave))"

text \<open>
  \<open>NotifyLeaveStatusChange\<close> of \<open>internal/notifications\<close>: it looks up the student and
  the approver and stores one notification for the student. The e-mail it then sends is
  a log line and leaves no trace in the state.
\<close>

definition NotifyLeaveStatusChange :: "DB \<Rightarrow> Time \<Rightarrow> LeaveRequest \<Rightarrow> string option \<times> DB" where
  "NotifyLeaveStatusChange db clock leaveRequest =
     (case First_user db (lr_StudentID leaveRequest) of
        None \<Rightarrow> (Some ''failed to find student'', db)
      | Some student \<Rightarrow>
          if (case lr_ApprovedBy leaveRequest of
                None \<Rightarrow> False
              | Some a \<Rightarrow> First_user db a = None)
          then (Some ''failed to find approver'', db)
          else (None, Create_notification db clock
                  \<lparr>nt_ID = 0, nt_UserID = lr_StudentID leaveRequest,
                   nt_Title = ''Leave Request '' @ lr_Status leaveRequest,
                   nt_Message = LeaveStatusMessage (lr_LeaveType leaveRequest)
                      (lr_StartDate leaveRequest) (lr_EndDate leaveRequest)
                      (lr_Status leaveRequest) (lr_Remarks leaveRequest),
                   nt_Type = ''leave_status'', nt_IsRead = False,
                   nt_RelatedID = Some (lr_ID leaveRequest), nt_CreatedAt = 0\<rparr>))"

record ApproveRejectRequest =
  ar_Action :: string
  ar_Remarks :: "string option"

definition max_ptr :: "nat \<Rightarrow> string option \<Rightarrow> bool" where
  "max_ptr n p = (case p of None \<Rightarrow> False | Some s \<Rightarrow> length s \<le> n)"

definition bind_ApproveRejectRequest :: "ApproveRejectRequest \<Rightarrow> FieldError list" where
  "bind_ApproveRejectRequest r = check_field ''Action'' [(''required'', ar_Action r \<noteq> [])]"

definition validate_ApproveRejectRequest :: "ApproveRejectRequest \<Rightarrow> FieldError list" where
  "validate_ApproveRejectRequest r =
     check_field ''Action''
       [(''required'', ar_Action r \<noteq> []),
        (''oneof'', ar_Action r \<in> set [''approve'', ''reject''])] @
     check_field ''Remarks'' [(''max'', max_ptr 200 (ar_Remarks r))]"

text \<open>
  The block of \<open>ApproveRejectLeave\<close> headed "Role-based approval restrictions": the
  response with which the handler returns early, or \<open>None\<close> when control falls through
  to the update.
\<close>

definition approval_restrictions :: "DB \<Rightarrow> Ctx \<Rightarrow> nat \<Rightarrow> LeaveRequest \<Rightarrow> response option" where
  "approval_restrictions db c approverID leave =
     (if role c = RoleFaculty then
        (case First_user db approverID of
           None \<Rightarrow> Some (JSON StatusInternalServerError (ErrorBody ''Approver not found''))
         | Some approver \<Rightarrow>
             if u_Dept approver \<noteq> lr_Dept leave
             then Some (JSON StatusForbidden
                          (ErrorBody ''You can only approve leaves from your department''))
             else None)
      else if role c = RoleWarden then
        (case First_user db approverID of
           None \<Rightarrow> Some (JSON StatusInternalServerError (ErrorBody ''Approver not found''))
         | Some approver \<Rightarrow>
             if u_Hostel approver = None \<or> lr_Hostel leave = None
                \<or> u_Hostel approver \<noteq> lr_Hostel leave
             then Some (JSON StatusForbidden
                          (ErrorBody ''You can only approve leaves from your hostel''))
             else None)
      else None)"

definition update_leave :: "LeaveRequest \<Rightarrow> nat \<Rightarrow> ApproveRejectRequest \<Rightarrow> LeaveRequest" where
  "update_leave leave approverID input =
     leave\<lparr>lr_Status := (if ar_Action input = ''approve'' then ''approved''
                         else if ar_Action input = ''reject'' then ''rejected''
                         else lr_Status leave),
           lr_ApprovedBy := Some approverID,
           lr_Remarks := ar_Remarks input\<rparr>"

definition ApproveRejectLeave ::
  "DB \<Rightarrow> Ctx \<Rightarrow> nat \<Rightarrow> ApproveRejectRequest \<Rightarrow> response \<times> DB" where
  "ApproveRejectLeave db c leaveID input =
     (if bind_ApproveRejectRequest input \<noteq> []
      then (JSON StatusBadRequest (BindError (bind_ApproveRejectRequest input)), db)
      else if validate_ApproveRejectRequest input \<noteq> []
      then (JSON StatusBadRequest (ValidationFailed (validate_ApproveRejectRequest input)), db)
      else
       (case First_leave db leaveID of
          None \<Rightarrow> (JSON StatusNotFound (ErrorBody ''Leave request not found''), db)
        | Some leave \<Rightarrow>
            if lr_Status leave \<noteq> ''pending''
            then (JSON StatusBadRequest
                    (ErrorBody ''Leave request has already been processed''), db)
            else
             (case userID c of
                None \<Rightarrow> (JSON StatusUnauthorized (ErrorBody ''Unauthorized''), db)
              | Some approverID \<Rightarrow>
                  (case approval_restrictions db c approverID leave of
                     Some denied \<Rightarrow> (denied, db)
                   | None \<Rightarrow>
                       (case Save_leave db (now c) (update_leave leave approverID input) of
                          (saved, db1) \<Rightarrow>
                            (JSON StatusOK (LeaveUpdated saved),
                             snd (NotifyLeaveStatusChange db1 (now c) saved)))))))"

section \<open>Attendance handlers (internal/attendance)\<close>

record MarkAttendanceRequest =
  ma_StudentID :: nat
  ma_Date :: Time
  ma_Present :: bool
  ma_Subject :: "string option"
  ma_Period :: "string option"

definition bind_MarkAttendanceRequest :: "MarkAttendanceRequest \<Rightarrow> FieldError list" where
  "bind_MarkAttendanceRequest r =
     check_field ''StudentID'' [(''required'', ma_StudentID r \<noteq> 0)] @
     check_field ''Date'' [(''required'', ma_Date r \<noteq> 0)] @
     check_field ''Present'' [(''required'', ma_Present r \<noteq> False)]"

definition validate_MarkAttendanceRequest :: "MarkAttendanceRequest \<Rightarrow> FieldError list" where
  "validate_MarkAttendanceRequest r =
     check_field ''StudentID'' [(''required'', ma_StudentID r \<noteq> 0)] @
     check_field ''Date'' [(''required'', ma_Date r \<noteq> 0)] @
     check_field ''Subject'' [(''max'', max_ptr 50 (ma_Subject r))] @
     check_field ''Period'' [(''max'', max_ptr 20 (ma_Period r))]"

definition MarkAttendance :: "DB \<Rightarrow> Ctx \<Rightarrow> MarkAttendanceRequest \<Rightarrow> response \<times> DB" where
  "MarkAttendance db c req =
     (if bind_MarkAttendanceRequest req \<noteq> []
      then (JSON StatusBadRequest (BindError (bind_MarkAttendanceRequest req)), db)
      else if validate_MarkAttendanceRequest req \<noteq> []
      then (JSON StatusBadRequest (ValidationFailed (validate_MarkAttendanceRequest req)), db)
      else
       (case userID c of
          None \<Rightarrow> (JSON StatusUnauthorized (ErrorBody ''User not found''), db)
        | Some markerID \<Rightarrow>
            (case First_user db (ma_StudentID req) of
               None \<Rightarrow> (JSON StatusNotFound (ErrorBody ''Student not found''), db)
             | Some student \<Rightarrow>
                 (case find (\<lambda>a. at_StudentID a = ma_StudentID req
                                 \<and> at_Date a = Truncate (ma_Date req) (24 * Hour))
                         (attendances db) of
                    Some existingAttendance \<Rightarrow>
                      (JSON StatusBadRequest
                         (ErrorBody ''Attendance already marked for this date''), db)
                  | None \<Rightarrow>
                      (case (find (\<lambda>l. lr_StudentID l = ma_StudentID req
                                       \<and> lr_Status l = ''approved''
                                       \<and> lr_StartDate l \<le> Truncate (ma_Date req) (24 * Hour)
                                       \<and> lr_EndDate l \<ge> Truncate (ma_Date req) (24 * Hour))
                               (leave_requests db), ma_Present req) of
                         (Some approvedLeave, True) \<Rightarrow>
                           (JSON StatusBadRequest
                              (LeaveConflict ''Student has approved leave for this date''
                                 (lr_LeaveType approvedLeave) (lr_Reason approvedLeave)
                                 (lr_StartDate approvedLeave) (lr_EndDate approvedLeave)), db)
                       | _ \<Rightarrow>
                           (case Create_attendance db (now c)
                                   \<lparr>at_ID = 0, at_StudentID = ma_StudentID req,
                                    at_Date = Truncate (ma_Date req) (24 * Hour),
                                    at_Present = ma_Present req, at_MarkedBy = markerID,
                                    at_Subject = ma_Subject req, at_Period = ma_Period req,
                                    at_CreatedAt = 0\<rparr> of
                              (attendance, db') \<Rightarrow>
                                (JSON StatusCreated (AttendanceMarked attendance), db')))))))"

text \<open>
  \<open>ViewAttendance\<close> and \<open>GetStats\<close>. \<open>parse\<close> stands for
  \<open>time.Parse("2006-01-02", _)\<close>, \<open>None\<close> being its error. The percentage is a float64
  at the source and an exact rational here.
\<close>

definition ViewAttendance :: "(string \<Rightarrow> Time option) \<Rightarrow> DB \<Rightarrow> Ctx \<Rightarrow> response" where
  "ViewAttendance parse db c =
     (case (if role c = RoleStudent then
              (case userID c of
                 None \<Rightarrow> Inl (JSON StatusUnauthorized (ErrorBody ''User not found''))
               | Some uid \<Rightarrow> Inr uid)
            else if q_student_id c = []
            then Inl (JSON StatusBadRequest (ErrorBody ''student_id parameter is required''))
            else Inr 1) of
        Inl early \<Rightarrow> early
      | Inr studentID \<Rightarrow>
          JSON StatusOK
            (AttendanceList
               (order_desc at_Date
                  (filter (\<lambda>a. at_StudentID a = studentID
                             \<and> (if q_start_date c \<noteq> []
                                 then (case parse (q_start_date c) of
                                         Some start \<Rightarrow> at_Date a \<ge> start | None \<Rightarrow> True)
                                 else True)
                             \<and> (if q_end_date c \<noteq> []
                                 then (case parse (q_end_date c) of
                                         Some endDate \<Rightarrow> at_Date a \<le> endDate | None \<Rightarrow> True)
                                 else True)
                             \<and> (if q_subject c \<noteq> [] then at_Subject a = Some (q_subject c) else True))
                     (attendances db)))
               (q_start_date c) (q_end_date c) (q_subject c)))"

definition student_stats :: "DB \<Rightarrow> nat \<Rightarrow> string \<Rightarrow> AttendanceStats" where
  "student_stats db studentID name =
     (let totalDays = int (length (filter (\<lambda>a. at_StudentID a = studentID) (attendances db)));
          presentDays = int (length (filter (\<lambda>a. at_StudentID a = studentID \<and> at_Present a = True)
                                       (attendances db)));
          lastAttendance =
            (case order_desc at_Date (filter (\<lambda>a. at_StudentID a = studentID) (attendances db)) of
               [] \<Rightarrow> None
             | lastRecord # rest \<Rightarrow> Some (at_Date lastRecord));
          attendancePercentage =
            (if totalDays > 0 then of_int presentDays / of_int totalDays * 100 else 0)
      in \<lparr>st_StudentID = studentID, st_StudentName = name,
          st_TotalDays = totalDays, st_PresentDays = presentDays,
          st_AbsentDays = totalDays - presentDays,
          st_AttendancePercentage = attendancePercentage,
          st_LastAttendance = lastAttendance\<rparr>)"

definition GetStats :: "DB \<Rightarrow> Ctx \<Rightarrow> response" where
  "GetStats db c =
     (case (if role c = RoleStudent then
              (case userID c of
                 None \<Rightarrow> Inl (JSON StatusUnauthorized (ErrorBody ''User not found''))
               | Some uid \<Rightarrow> Inr uid)
            else if q_student_id c = []
            then Inl (JSON StatusBadRequest (ErrorBody ''student_id parameter is required''))
            else Inr 1) of
        Inl early \<Rightarrow> early
      | Inr studentID \<Rightarrow>
          (case First_user db studentID of
             None \<Rightarrow> JSON StatusNotFound (ErrorBody ''Student not found'')
           | Some student \<Rightarrow> JSON StatusOK (StatsBody (student_stats db studentID (u_Name student)))))"

section \<open>Calendar days and sample states\<close>

text \<open>
  The calendar day (UTC) of an instant is the number of whole days since the zero time,
  and the inclusive calendar-day span of a range counts the days it touches. \<open>day n\<close>
  is 00:00 UTC of day \<open>n\<close>: day 739319 is 2025-03-10 and day 739341 is 2025-04-01.
\<close>

definition calendar_day :: "Time \<Rightarrow> int" where
  "calendar_day t = t div (24 * Hour)"

definition calendar_day_span :: "Time \<Rightarrow> Time \<Rightarrow> int" where
  "calendar_day_span startDate endDate = calendar_day endDate - calendar_day startDate + 1"

definition day :: "int \<Rightarrow> Time" where
  "day n = n * (24 * Hour)"

definition student_A :: User where
  "student_A = \<lparr>u_ID = 1, u_Name = ''A'', u_Email = ''a@campus.edu'', u_Role = ''student'',
                 u_Dept = ''CS'', u_Hostel = Some ''H1''\<rparr>"

definition faculty_F :: User where
  "faculty_F = \<lparr>u_ID = 2, u_Name = ''F'', u_Email = ''f@campus.edu'', u_Role = ''faculty'',
                 u_Dept = ''CS'', u_Hostel = None\<rparr>"

definition warden_W :: User where
  "warden_W = \<lparr>u_ID = 3, u_Name = ''W'', u_Email = ''w@campus.edu'', u_Role = ''warden'',
                u_Dept = ''CS'', u_Hostel = None\<rparr>"

definition pending_leave :: LeaveRequest where
  "pending_leave = \<lparr>lr_ID = 1, lr_StudentID = 1, lr_LeaveType = ''medical'',
       lr_Reason = ''fever and rest'', lr_StartDate = day 739319, lr_EndDate = day 739321,
       lr_Status = ''pending'', lr_ApprovedBy = None, lr_Remarks = None, lr_Dept = ''CS'',
       lr_Hostel = Some ''H1'', lr_Days = 3, lr_CreatedAt = day 739317, lr_UpdatedAt = day 739317\<rparr>"

definition approved_leave :: LeaveRequest where
  "approved_leave = \<lparr>lr_ID = 1, lr_StudentID = 1, lr_LeaveType = ''medical'',
       lr_Reason = ''fever and rest'', lr_StartDate = day 739341, lr_EndDate = day 739343,
       lr_Status = ''approved'', lr_ApprovedBy = Some 2, lr_Remarks = Some ''ok'', lr_Dept = ''CS'',
       lr_Hostel = Some ''H1'', lr_Days = 3, lr_CreatedAt = day 739330, lr_UpdatedAt = day 739331\<rparr>"

definition db_pending :: DB where
  "db_pending = \<lparr>users = [student_A, faculty_F, warden_W], leave_requests = [pending_leave],
                  attendances = [], notifications = []\<rparr>"

definition db_approved :: DB where
  "db_approved = \<lparr>users = [student_A, faculty_F, warden_W], leave_requests = [approved_leave],
                   attendances = [], notifications = []\<rparr>"

definition ctx :: "nat \<Rightarrow> string \<Rightarrow> Time \<Rightarrow> Ctx" where
  "ctx uid r clock = \<lparr>userID = Some uid, role = r, now = clock, q_status = [],
       q_leave_type = [], q_page = ''1'', q_limit = ''10'', q_student_id = [],
       q_start_date = [], q_end_date = [], q_subject = []\<rparr>"

text \<open>
  The validity condition of Submit in the specification's own words: end not before
  start, start not before today, an inclusive span of at most 30 days, a reason of 10 to
  500 characters and one of the four leave types.
\<close>

definition spec_Submit_valid :: "Time \<Rightarrow> ApplyLeaveRequest \<Rightarrow> bool" where
  "spec_Submit_valid clock r =
     (al_StartDate r \<le> al_EndDate r
      \<and> calendar_day clock \<le> calendar_day (al_StartDate r)
      \<and> calendar_day_span (al_StartDate r) (al_EndDate r) \<le> 30
      \<and> 10 \<le> length (al_Reason r) \<and> length (al_Reason r) \<le> 500
      \<and> al_LeaveType r \<in> set [''medical'', ''personal'', ''emergency'', ''academic''])"

definition student_B :: User where
  "student_B = \<lparr>u_ID = 4, u_Name = ''B'', u_Email = ''b@campus.edu'', u_Role = ''student'',
                 u_Dept = ''EE'', u_Hostel = None\<rparr>"

definition db_attendance :: DB where
  "db_attendance = \<lparr>users = [student_A, faculty_F, warden_W, student_B], leave_requests = [],
       attendances =
         [\<lparr>at_ID = 1, at_StudentID = 1, at_Date = day 739341, at_Present = True, at_MarkedBy = 2,
           at_Subject = Some ''Maths'', at_Period = Some ''1'', at_CreatedAt = day 739341 + 9 * Hour\<rparr>,
          \<lparr>at_ID = 2, at_StudentID = 4, at_Date = day 739341, at_Present = True, at_MarkedBy = 2,
           at_Subject = Some ''Maths'', at_Period = Some ''1'', at_CreatedAt = day 739341 + 9 * Hour\<rparr>],
       notifications = []\<rparr>"

section \<open>Evaluation and auxiliary facts\<close>

lemmas status_defs = StatusCreated_def StatusOK_def StatusBadRequest_def StatusForbidden_def
  StatusNotFound_def StatusUnauthorized_def StatusInternalServerError_def

lemmas role_defs = RoleStudent_def RoleAdmin_def RoleFaculty_def RoleWarden_def

lemmas time_defs = day_def Hour_def Sub_def maxDuration_def minDuration_def Truncate_def
  After_def Before_def calendar_day_def calendar_day_span_def

lemmas sample_defs = ctx_def db_pending_def db_approved_def db_attendance_def student_A_def
  student_B_def faculty_F_def warden_W_def pending_leave_def approved_leave_def

lemmas validation_defs = check_field_def max_ptr_def validateFutureDate_def validateDateRange_def
  validateLeaveDuration_def bind_ApplyLeaveRequest_def validate_ApplyLeaveRequest_def
  bind_ApproveRejectRequest_def validate_ApproveRejectRequest_def
  bind_MarkAttendanceRequest_def validate_MarkAttendanceRequest_def spec_Submit_valid_def

lemmas store_defs = next_id_def First_user_def First_leave_def Create_leave_def Save_leave_def
  Create_attendance_def Create_notification_def order_desc_def

lemmas handler_defs = existingLeaves_def ApplyLeave_def leaves_response_def ListLeaves_def
  GetLeaveDetails_def NotifyLeaveStatusChange_def approval_restrictions_def update_leave_def
  ApproveRejectLeave_def MarkAttendance_def ViewAttendance_def student_stats_def GetStats_def

lemmas eval_defs = status_defs role_defs time_defs sample_defs validation_defs store_defs
  handler_defs Let_def

text \<open>
  On a duration that is not negative, \<open>int(d.Hours()/24)\<close> is the number of whole
  24-hour periods in it.
\<close>

lemma Hours_exact:
  assumes "0 \<le> d"
  shows "Hours d = of_int d / of_int Hour"
proof -
  have quot: "d sdiv Hour = d div Hour" and rem: "d smod Hour = d mod Hour"
    using assms
    by (simp_all add: Hour_def signed_divide_int_def signed_modulo_int_def sgn_if abs_if)
  have "d = Hour * (d div Hour) + d mod Hour"
    by (simp only: mult_div_mod_eq)
  then have "(of_int d :: rat) = of_int (Hour * (d div Hour) + d mod Hour)"
    by (rule arg_cong)
  then have split: "(of_int d :: rat) = of_int Hour * of_int (d div Hour) + of_int (d mod Hour)"
    by (simp only: of_int_add of_int_mult)
  have nz: "(of_int Hour :: rat) \<noteq> 0"
    by (simp add: Hour_def)
  have lit: "(60 * 60 * 1000000000 :: rat) = of_int Hour"
    by (simp add: Hour_def)
  show ?thesis
    unfolding Hours_def quot rem lit split using nz by (simp add: field_simps)
qed

lemma whole_days:
  assumes "0 \<le> d"
  shows "go_int (Hours d / 24) = d div (24 * Hour)"
proof -
  have "Hours d / 24 = of_int d / of_int (24 * Hour)"
    using Hours_exact [OF assms] by simp
  moreover have "0 \<le> (of_int d :: rat) / of_int (24 * Hour)"
    using assms by (simp add: Hour_def)
  ultimately show ?thesis
    unfolding go_int_def by (simp only: if_True floor_divide_of_int_eq)
qed

lemma leave_days_eval:
  "0 \<le> e - s \<Longrightarrow> e - s \<le> 30 * (24 * Hour) \<Longrightarrow>
   leave_days s e = (e - s) div (24 * Hour) + 1"
  by (simp add: leave_days_def Sub_def Let_def maxDuration_def minDuration_def Hour_def
        whole_days)

lemma div_diff:
  fixes e s D :: int
  assumes D: "0 < D"
  shows "(e - s) div D = e div D - s div D - (if e mod D < s mod D then 1 else 0)"
proof -
  have e: "e = D * (e div D) + e mod D" and s: "s = D * (s div D) + s mod D"
    by (simp_all only: mult_div_mod_eq)
  have be: "0 \<le> e mod D" "e mod D < D" and bs: "0 \<le> s mod D" "s mod D < D"
    using D by simp_all
  show ?thesis
  proof (cases "e mod D < s mod D")
    case True
    have "e - s = D * (e div D - s div D - 1) + (D + e mod D - s mod D)"
      using e s by (simp add: algebra_simps)
    moreover have "0 \<le> D + e mod D - s mod D" "D + e mod D - s mod D < D"
      using True be bs by linarith+
    ultimately have "(e - s) div D = e div D - s div D - 1"
      by (rule int_div_pos_eq)
    with True show ?thesis by simp
  next
    case False
    have "e - s = D * (e div D - s div D) + (e mod D - s mod D)"
      using e s by (simp add: algebra_simps)
    moreover have "0 \<le> e mod D - s mod D" "e mod D - s mod D < D"
      using False be bs by linarith+
    ultimately have "(e - s) div D = e div D - s div D"
      by (rule int_div_pos_eq)
    with False show ?thesis by simp
  qed
qed

text \<open>A field passes when every one of its tags holds.\<close>

lemma check_field_Nil: "check_field f tags = [] \<longleftrightarrow> (\<forall>x \<in> set tags. snd x)"
proof -
  have "check_field f tags = [] \<longleftrightarrow> filter (\<lambda>(t, ok). \<not> ok) tags = []"
    by (simp add: check_field_def split: list.splits prod.splits)
  then show ?thesis by (auto simp: filter_empty_conv)
qed

lemma validateLeaveDuration_iff:
  "validateLeaveDuration s e \<longleftrightarrow> 0 \<le> e - s \<and> e - s \<le> 30 * (24 * Hour)"
  by (auto simp: validateLeaveDuration_def Sub_def Let_def maxDuration_def minDuration_def
        Hour_def)

lemma bind_ApplyLeaveRequest_Nil:
  "bind_ApplyLeaveRequest r = [] \<longleftrightarrow>
     al_LeaveType r \<noteq> [] \<and> al_Reason r \<noteq> [] \<and> al_StartDate r \<noteq> 0 \<and> al_EndDate r \<noteq> 0"
  by (simp add: bind_ApplyLeaveRequest_def check_field_Nil)

lemma validate_ApplyLeaveRequest_Nil:
  "validate_ApplyLeaveRequest clock r = [] \<longleftrightarrow>
     al_LeaveType r \<in> {''medical'', ''personal'', ''emergency'', ''academic''}
     \<and> 10 \<le> length (al_Reason r) \<and> length (al_Reason r) \<le> 500
     \<and> al_StartDate r \<noteq> 0 \<and> Truncate clock (24 * Hour) \<le> al_StartDate r
     \<and> al_EndDate r \<noteq> 0 \<and> al_StartDate r < al_EndDate r
     \<and> al_EndDate r - al_StartDate r \<le> 30 * (24 * Hour)"
  by (auto simp: validate_ApplyLeaveRequest_def check_field_Nil validateLeaveDuration_iff
        validateFutureDate_def validateDateRange_def After_def Before_def)

lemma ApplyLeave_accepted:
  "(\<exists>l db'. ApplyLeave db c input = (JSON StatusCreated (LeaveSubmitted l), db')) \<longleftrightarrow>
     bind_ApplyLeaveRequest input = [] \<and> validate_ApplyLeaveRequest (now c) input = []
     \<and> (\<exists>sid. userID c = Some sid \<and> First_user db sid \<noteq> None
              \<and> existingLeaves db sid (al_StartDate input) (al_EndDate input) = [])"
  by (auto simp: ApplyLeave_def status_defs Let_def split: option.splits prod.splits)

lemma ApplyLeave_created:
  assumes "ApplyLeave db c input = (JSON StatusCreated (LeaveSubmitted l), db')"
  shows "validate_ApplyLeaveRequest (now c) input = []"
    and "lr_Days l = leave_days (al_StartDate input) (al_EndDate input)"
    and "leave_requests db' = leave_requests db @ [l]"
  using assms
  by (auto simp: ApplyLeave_def status_defs Let_def Create_leave_def
        split: option.splits prod.splits if_splits)

text \<open>Saving a leave that was loaded by its key replaces the row that \<open>First\<close> finds.\<close>

lemma find_replace:
  "find (\<lambda>l. lr_ID l = i) xs = Some l \<Longrightarrow> lr_ID l' = i \<Longrightarrow>
   find (\<lambda>l. lr_ID l = i) (map (\<lambda>r. if lr_ID r = lr_ID l' then l' else r) xs) = Some l'"
  by (induction xs) (auto split: if_splits)

lemma First_leave_ID: "First_leave db i = Some l \<Longrightarrow> lr_ID l = i"
  by (auto simp: First_leave_def find_Some_iff)

lemma First_leave_Save:
  assumes "First_leave db i = Some l" and "lr_ID l' = i"
  shows "First_leave (snd (Save_leave db clock l')) i = Some (l'\<lparr>lr_UpdatedAt := clock\<rparr>)"
  using assms find_replace [of i "leave_requests db" l "l'\<lparr>lr_UpdatedAt := clock\<rparr>"]
  by (simp add: First_leave_def Save_leave_def Let_def)

lemma Notify_leave_requests:
  "leave_requests (snd (NotifyLeaveStatusChange db clock l)) = leave_requests db"
  by (simp add: NotifyLeaveStatusChange_def Create_notification_def split: option.splits)

lemma First_leave_Notify:
  "First_leave (snd (NotifyLeaveStatusChange db clock l)) i = First_leave db i"
  by (simp add: First_leave_def Notify_leave_requests)

lemma approval_restrictions_not_OK:
  "approval_restrictions db c a leave \<noteq> Some (JSON StatusOK b)"
  by (simp add: approval_restrictions_def status_defs split: option.splits)

lemma validate_action:
  "validate_ApproveRejectRequest input = [] \<Longrightarrow>
   ar_Action input = ''approve'' \<or> ar_Action input = ''reject''"
  by (simp add: validate_ApproveRejectRequest_def check_field_Nil)

lemma valid_decision:
  assumes "ar_Action input \<in> {''approve'', ''reject''} \<and> ar_Remarks input = Some r
             \<and> length r \<le> 200"
  shows "bind_ApproveRejectRequest input = []"
    and "validate_ApproveRejectRequest input = []"
  using assms
  by (auto simp: bind_ApproveRejectRequest_def validate_ApproveRejectRequest_def
        check_field_Nil max_ptr_def)

lemma ApproveRejectLeave_processed:
  assumes "First_leave db i = Some leave" and "lr_Status leave \<noteq> ''pending''"
  shows "snd (ApproveRejectLeave db c i input) = db"
    and "bind_ApproveRejectRequest input = [] \<Longrightarrow>
         validate_ApproveRejectRequest input = [] \<Longrightarrow>
         fst (ApproveRejectLeave db c i input) =
           JSON StatusBadRequest (ErrorBody ''Leave request has already been processed'')"
  using assms by (simp_all add: ApproveRejectLeave_def)

lemma ApproveRejectLeave_OK:
  assumes "ApproveRejectLeave db c i input = (JSON StatusOK b, db')"
  shows "\<exists>leave a. First_leave db i = Some leave \<and> validate_ApproveRejectRequest input = []
           \<and> db' = snd (NotifyLeaveStatusChange
                          (snd (Save_leave db (now c) (update_leave leave a input))) (now c)
                          (fst (Save_leave db (now c) (update_leave leave a input))))"
proof -
  from assms obtain leave where l: "First_leave db i = Some leave"
    and v: "validate_ApproveRejectRequest input = []"
    by (auto simp: ApproveRejectLeave_def status_defs split: if_splits option.splits)
  from assms l v obtain a where a: "userID c = Some a"
    by (auto simp: ApproveRejectLeave_def status_defs split: if_splits option.splits)
  from assms l v a approval_restrictions_not_OK [of db c a leave b]
  have "db' = snd (NotifyLeaveStatusChange
                          (snd (Save_leave db (now c) (update_leave leave a input))) (now c)
                          (fst (Save_leave db (now c) (update_leave leave a input))))"
    by (auto simp: ApproveRejectLeave_def status_defs
          split: if_splits option.splits prod.splits)
  with l v show ?thesis by blast
qed

lemma decided_leave:
  assumes "ApproveRejectLeave db c i input = (JSON StatusOK b, db')"
  shows "\<exists>saved. First_leave db' i = Some saved \<and> lr_Status saved \<noteq> ''pending''"
proof -
  from ApproveRejectLeave_OK [OF assms] obtain leave a where
    l: "First_leave db i = Some leave" and v: "validate_ApproveRejectRequest input = []"
    and d: "db' = snd (NotifyLeaveStatusChange
                          (snd (Save_leave db (now c) (update_leave leave a input))) (now c)
                          (fst (Save_leave db (now c) (update_leave leave a input))))"
    by blast
  have key: "lr_ID (update_leave leave a input) = i"
    using First_leave_ID [OF l] by (simp add: update_leave_def)
  have "First_leave db' i = Some ((update_leave leave a input)\<lparr>lr_UpdatedAt := now c\<rparr>)"
    unfolding d First_leave_Notify using First_leave_Save [OF l key] .
  moreover have "lr_Status ((update_leave leave a input)\<lparr>lr_UpdatedAt := now c\<rparr>) \<noteq> ''pending''"
    using validate_action [OF v] by (auto simp: update_leave_def)
  ultimately show ?thesis by blast
qed

section \<open>Leave submission\<close>

text \<open>
  C1 (the code departs from the claim). The claim: Submit rejects every request whose
  range intersects a pending or approved range of the same student, also when one range
  contains the other. The query of \<open>ApplyLeave\<close> selects the stored ranges that contain
  the new start or the new end, so a request that strictly encloses a stored range finds
  none. Student 1 holds a pending leave for 2025-03-10 to 2025-03-12 and submits
  2025-03-09 to 2025-03-13 on 2025-03-08: the answer is 201 and a second pending record is
  stored.
\<close>

theorem C1_enclosing_request_accepted:
  "lr_StudentID pending_leave = 1 \<and> lr_Status pending_leave = ''pending''
   \<and> day 739318 < lr_StartDate pending_leave \<and> lr_EndDate pending_leave < day 739322
   \<and> ApplyLeave db_pending (ctx 1 RoleStudent (day 739317 + 12 * Hour))
        \<lparr>al_LeaveType = ''personal'', al_Reason = ''family function'',
         al_StartDate = day 739318, al_EndDate = day 739322\<rparr>
      = (JSON StatusCreated (LeaveSubmitted
           \<lparr>lr_ID = 2, lr_StudentID = 1, lr_LeaveType = ''personal'',
            lr_Reason = ''family function'', lr_StartDate = day 739318,
            lr_EndDate = day 739322, lr_Status = ''pending'', lr_ApprovedBy = None,
            lr_Remarks = None, lr_Dept = ''CS'', lr_Hostel = Some ''H1'', lr_Days = 5,
            lr_CreatedAt = day 739317 + 12 * Hour, lr_UpdatedAt = day 739317 + 12 * Hour\<rparr>),
         db_pending\<lparr>leave_requests := [pending_leave,
           \<lparr>lr_ID = 2, lr_StudentID = 1, lr_LeaveType = ''personal'',
            lr_Reason = ''family function'', lr_StartDate = day 739318,
            lr_EndDate = day 739322, lr_Status = ''pending'', lr_ApprovedBy = None,
            lr_Remarks = None, lr_Dept = ''CS'', lr_Hostel = Some ''H1'', lr_Days = 5,
            lr_CreatedAt = day 739317 + 12 * Hour,
            lr_UpdatedAt = day 739317 + 12 * Hour\<rparr>]\<rparr>)"
  by (simp add: eval_defs leave_days_eval)

text \<open>
  C5 (amended). The claim has Submit accept a single-day request with end = start and
  reject a request with end - start = 30 days. \<open>validateDateRange\<close> asks for an end
  strictly after the start, and \<open>validateLeaveDuration\<close> allows a difference of up to
  30 times 24 hours. On 2025-03-20 a request for 2025-03-21 alone meets the claim's
  conditions and is answered 400 on the tag \<open>date_range\<close>; a request for 2025-03-21 to
  2025-04-20, 31 days inclusive, does not meet them and is answered 201.
\<close>

theorem C5_single_day_rejected_31_days_accepted:
  "spec_Submit_valid (day 739329 + 9 * Hour)
      \<lparr>al_LeaveType = ''personal'', al_Reason = ''family function'',
       al_StartDate = day 739330, al_EndDate = day 739330\<rparr>
   \<and> existingLeaves db_pending 1 (day 739330) (day 739330) = []
   \<and> ApplyLeave db_pending (ctx 1 RoleStudent (day 739329 + 9 * Hour))
        \<lparr>al_LeaveType = ''personal'', al_Reason = ''family function'',
         al_StartDate = day 739330, al_EndDate = day 739330\<rparr>
      = (JSON StatusBadRequest (ValidationFailed [(''EndDate'', ''date_range'')]), db_pending)
   \<and> \<not> spec_Submit_valid (day 739329 + 9 * Hour)
      \<lparr>al_LeaveType = ''personal'', al_Reason = ''family function'',
       al_StartDate = day 739330, al_EndDate = day 739360\<rparr>
   \<and> calendar_day_span (day 739330) (day 739360) = 31
   \<and> fst (ApplyLeave db_pending (ctx 1 RoleStudent (day 739329 + 9 * Hour))
        \<lparr>al_LeaveType = ''personal'', al_Reason = ''family function'',
         al_StartDate = day 739330, al_EndDate = day 739360\<rparr>)
      = JSON StatusCreated (LeaveSubmitted
          \<lparr>lr_ID = 2, lr_StudentID = 1, lr_LeaveType = ''personal'',
           lr_Reason = ''family function'', lr_StartDate = day 739330, lr_EndDate = day 739360,
           lr_Status = ''pending'', lr_ApprovedBy = None, lr_Remarks = None, lr_Dept = ''CS'',
           lr_Hostel = Some ''H1'', lr_Days = 31, lr_CreatedAt = day 739329 + 9 * Hour,
           lr_UpdatedAt = day 739329 + 9 * Hour\<rparr>)"
  by (simp add: eval_defs leave_days_eval)

text \<open>
  C5, as the code has it: for a student who exists and has no leave that the overlap query
  finds, \<open>ApplyLeave\<close> answers 201 exactly when start and end are set, the end is
  strictly after the start, the start is not before 00:00 UTC of the current day, end -
  start is at most 30 times 24 hours, the reason has 10 to 500 characters and the type
  is one of the four.
\<close>

theorem C5_submit_accepted_iff:
  assumes "userID c = Some sid" and "First_user db sid = Some student"
    and "existingLeaves db sid (al_StartDate input) (al_EndDate input) = []"
  shows "(\<exists>l db'. ApplyLeave db c input = (JSON StatusCreated (LeaveSubmitted l), db')) \<longleftrightarrow>
     al_StartDate input \<noteq> 0 \<and> al_EndDate input \<noteq> 0
     \<and> al_StartDate input < al_EndDate input
     \<and> Truncate (now c) (24 * Hour) \<le> al_StartDate input
     \<and> al_EndDate input - al_StartDate input \<le> 30 * (24 * Hour)
     \<and> 10 \<le> length (al_Reason input) \<and> length (al_Reason input) \<le> 500
     \<and> al_LeaveType input \<in> {''medical'', ''personal'', ''emergency'', ''academic''}"
  unfolding ApplyLeave_accepted bind_ApplyLeaveRequest_Nil validate_ApplyLeaveRequest_Nil
  using assms by auto

theorem C5_submit_accepted_iff_witness:
  "userID (ctx 1 RoleStudent (day 739329 + 9 * Hour)) = Some 1
   \<and> First_user db_pending 1 = Some student_A
   \<and> existingLeaves db_pending 1 (day 739330) (day 739360) = []
   \<and> day 739330 < day 739360
   \<and> Truncate (day 739329 + 9 * Hour) (24 * Hour) \<le> day 739330
   \<and> day 739360 - day 739330 \<le> 30 * (24 * Hour)
   \<and> (\<exists>l db'. ApplyLeave db_pending (ctx 1 RoleStudent (day 739329 + 9 * Hour))
         \<lparr>al_LeaveType = ''personal'', al_Reason = ''family function'',
          al_StartDate = day 739330, al_EndDate = day 739360\<rparr>
        = (JSON StatusCreated (LeaveSubmitted l), db'))"
proof -
  have u: "userID (ctx 1 RoleStudent (day 739329 + 9 * Hour)) = Some 1"
    by (simp add: ctx_def)
  have f: "First_user db_pending 1 = Some student_A"
    by (simp add: First_user_def sample_defs)
  have x: "existingLeaves db_pending 1
       (al_StartDate \<lparr>al_LeaveType = ''personal'', al_Reason = ''family function'',
          al_StartDate = day 739330, al_EndDate = day 739360\<rparr>)
       (al_EndDate \<lparr>al_LeaveType = ''personal'', al_Reason = ''family function'',
          al_StartDate = day 739330, al_EndDate = day 739360\<rparr>) = []"
    by (simp add: existingLeaves_def sample_defs time_defs)
  show ?thesis
    using C5_submit_accepted_iff [OF u f x] u f x
    by (simp add: ctx_def time_defs)
qed

text \<open>
  C8 (amended). The claim has the stored day count equal both (end - start in whole
  days) + 1 and the inclusive calendar-day span. \<open>ApplyLeave\<close> keeps the time of day of
  both dates and counts whole 24-hour periods: a request from 2025-03-21 23:00 to
  2025-03-22 01:00 is accepted with a day count of 1, and touches two calendar days.
\<close>

theorem C8_two_calendar_days_counted_as_one:
  "ApplyLeave db_pending (ctx 1 RoleStudent (day 739329 + 9 * Hour))
        \<lparr>al_LeaveType = ''personal'', al_Reason = ''family function'',
         al_StartDate = day 739330 + 23 * Hour, al_EndDate = day 739331 + 1 * Hour\<rparr>
      = (JSON StatusCreated (LeaveSubmitted
          \<lparr>lr_ID = 2, lr_StudentID = 1, lr_LeaveType = ''personal'',
           lr_Reason = ''family function'', lr_StartDate = day 739330 + 23 * Hour,
           lr_EndDate = day 739331 + 1 * Hour,
           lr_Status = ''pending'', lr_ApprovedBy = None, lr_Remarks = None, lr_Dept = ''CS'',
           lr_Hostel = Some ''H1'', lr_Days = 1, lr_CreatedAt = day 739329 + 9 * Hour,
           lr_UpdatedAt = day 739329 + 9 * Hour\<rparr>),
         db_pending\<lparr>leave_requests := [pending_leave,
          \<lparr>lr_ID = 2, lr_StudentID = 1, lr_LeaveType = ''personal'',
           lr_Reason = ''family function'', lr_StartDate = day 739330 + 23 * Hour,
           lr_EndDate = day 739331 + 1 * Hour,
           lr_Status = ''pending'', lr_ApprovedBy = None, lr_Remarks = None, lr_Dept = ''CS'',
           lr_Hostel = Some ''H1'', lr_Days = 1, lr_CreatedAt = day 739329 + 9 * Hour,
           lr_UpdatedAt = day 739329 + 9 * Hour\<rparr>]\<rparr>)
   \<and> calendar_day_span (day 739330 + 23 * Hour) (day 739331 + 1 * Hour) = 2"
  by (simp add: eval_defs leave_days_eval)

text \<open>
  C8, as the code has it: the record created by an accepted submission is stored, its
  day count is the number of whole 24-hour periods between start and end plus one, it is
  at least 1, and it is the inclusive calendar-day span when the time of day of the end
  is not earlier than that of the start (so whenever both are at 00:00 UTC), and one
  less otherwise.
\<close>

theorem C8_days_stored:
  assumes "ApplyLeave db c input = (JSON StatusCreated (LeaveSubmitted l), db')"
  shows "l \<in> set (leave_requests db')
     \<and> lr_Days l = (al_EndDate input - al_StartDate input) div (24 * Hour) + 1
     \<and> 1 \<le> lr_Days l
     \<and> lr_Days l =
         (if al_StartDate input mod (24 * Hour) \<le> al_EndDate input mod (24 * Hour)
          then calendar_day_span (al_StartDate input) (al_EndDate input)
          else calendar_day_span (al_StartDate input) (al_EndDate input) - 1)"
proof -
  note a = ApplyLeave_created [OF assms]
  from a(1) have r: "0 \<le> al_EndDate input - al_StartDate input"
    "al_EndDate input - al_StartDate input \<le> 30 * (24 * Hour)"
    by (simp_all add: validate_ApplyLeaveRequest_Nil)
  have d: "lr_Days l = (al_EndDate input - al_StartDate input) div (24 * Hour) + 1"
    using a(2) r by (simp add: leave_days_eval)
  have p: "(0::int) < 24 * Hour"
    by (simp add: Hour_def)
  have "0 \<le> (al_EndDate input - al_StartDate input) div (24 * Hour)"
    using r(1) p by (simp add: pos_imp_zdiv_nonneg_iff)
  with d have one: "1 \<le> lr_Days l"
    by simp
  have span: "lr_Days l =
         (if al_StartDate input mod (24 * Hour) \<le> al_EndDate input mod (24 * Hour)
          then calendar_day_span (al_StartDate input) (al_EndDate input)
          else calendar_day_span (al_StartDate input) (al_EndDate input) - 1)"
    unfolding d calendar_day_span_def calendar_day_def div_diff [OF p] by auto
  from a(3) have "l \<in> set (leave_requests db')"
    by simp
  with d one span show ?thesis
    by blast
qed

theorem C8_days_stored_witness:
  "lr_Days \<lparr>lr_ID = 2, lr_StudentID = 1, lr_LeaveType = ''personal'',
            lr_Reason = ''family function'', lr_StartDate = day 739318,
            lr_EndDate = day 739322, lr_Status = ''pending'', lr_ApprovedBy = None,
            lr_Remarks = None, lr_Dept = ''CS'', lr_Hostel = Some ''H1'', lr_Days = 5,
            lr_CreatedAt = day 739317 + 12 * Hour, lr_UpdatedAt = day 739317 + 12 * Hour\<rparr>
     = (day 739322 - day 739318) div (24 * Hour) + 1
   \<and> calendar_day_span (day 739318) (day 739322) = 5"
proof -
  have a: "ApplyLeave db_pending (ctx 1 RoleStudent (day 739317 + 12 * Hour))
        \<lparr>al_LeaveType = ''personal'', al_Reason = ''family function'',
         al_StartDate = day 739318, al_EndDate = day 739322\<rparr>
      = (JSON StatusCreated (LeaveSubmitted
           \<lparr>lr_ID = 2, lr_StudentID = 1, lr_LeaveType = ''personal'',
            lr_Reason = ''family function'', lr_StartDate = day 739318,
            lr_EndDate = day 739322, lr_Status = ''pending'', lr_ApprovedBy = None,
            lr_Remarks = None, lr_Dept = ''CS'', lr_Hostel = Some ''H1'', lr_Days = 5,
            lr_CreatedAt = day 739317 + 12 * Hour, lr_UpdatedAt = day 739317 + 12 * Hour\<rparr>),
         db_pending\<lparr>leave_requests := [pending_leave,
           \<lparr>lr_ID = 2, lr_StudentID = 1, lr_LeaveType = ''personal'',
            lr_Reason = ''family function'', lr_StartDate = day 739318,
            lr_EndDate = day 739322, lr_Status = ''pending'', lr_ApprovedBy = None,
            lr_Remarks = None, lr_Dept = ''CS'', lr_Hostel = Some ''H1'', lr_Days = 5,
            lr_CreatedAt = day 739317 + 12 * Hour,
            lr_UpdatedAt = day 739317 + 12 * Hour\<rparr>]\<rparr>)"
    by (simp add: eval_defs leave_days_eval)
  show ?thesis
    using C8_days_stored [OF a] by (simp add: time_defs)
qed

section \<open>Deciding a leave\<close>

text \<open>
  C2 (amended). The claim has every approve or reject call on a leave that is not pending
  fail with a Conflict error "already processed". \<open>ApproveRejectLeave\<close> validates the
  body before it loads the leave, and the tag \<open>max=200\<close> on the pointer \<open>Remarks\<close>
  fails on nil: an approve call without remarks on the approved leave 1 is answered 400
  "Validation failed" on that tag. With remarks the call is answered "Leave request has
  already been processed", under status 400 and not 409. The database is unchanged in
  both cases.
\<close>

theorem C2_decide_without_remarks_validation_failed:
  "First_leave db_approved 1 = Some approved_leave
   \<and> lr_Status approved_leave \<noteq> ''pending''
   \<and> ApproveRejectLeave db_approved (ctx 2 RoleFaculty (day 739332)) 1
        \<lparr>ar_Action = ''approve'', ar_Remarks = None\<rparr>
      = (JSON StatusBadRequest (ValidationFailed [(''Remarks'', ''max'')]), db_approved)
   \<and> ApproveRejectLeave db_approved (ctx 2 RoleFaculty (day 739332)) 1
        \<lparr>ar_Action = ''approve'', ar_Remarks = Some ''ok''\<rparr>
      = (JSON StatusBadRequest (ErrorBody ''Leave request has already been processed''),
         db_approved)
   \<and> StatusBadRequest \<noteq> StatusConflict"
  by (simp add: eval_defs StatusConflict_def)

text \<open>
  C2, as the code has it. A decision on a leave that is not pending changes nothing in
  the database, whatever the request body; when the body names the action approve or
  reject and carries remarks of at most 200 characters, the answer is status 400 with the
  message "Leave request has already been processed". After a decision that was
  answered 200, every further such decision on the same id, by any actor and with
  either action, is answered that way and leaves the database as it is.
\<close>

theorem C2_decide_processed_conflict:
  "(First_leave db leaveID = Some leave \<and> lr_Status leave \<noteq> ''pending'' \<longrightarrow>
      snd (ApproveRejectLeave db c leaveID input) = db \<and>
      (ar_Action input \<in> {''approve'', ''reject''} \<and> ar_Remarks input = Some r
         \<and> length r \<le> 200 \<longrightarrow>
         fst (ApproveRejectLeave db c leaveID input) =
           JSON StatusBadRequest (ErrorBody ''Leave request has already been processed'')))
   \<and> (ApproveRejectLeave db c leaveID input = (JSON StatusOK b, db') \<and>
       ar_Action input' \<in> {''approve'', ''reject''} \<and> ar_Remarks input' = Some r'
         \<and> length r' \<le> 200 \<longrightarrow>
         ApproveRejectLeave db' c' leaveID input' =
           (JSON StatusBadRequest (ErrorBody ''Leave request has already been processed''), db'))"
proof (intro conjI impI)
  assume h: "First_leave db leaveID = Some leave \<and> lr_Status leave \<noteq> ''pending''"
  then show "snd (ApproveRejectLeave db c leaveID input) = db"
    using ApproveRejectLeave_processed(1) by blast
  assume "ar_Action input \<in> {''approve'', ''reject''} \<and> ar_Remarks input = Some r
         \<and> length r \<le> 200"
  then have "bind_ApproveRejectRequest input = []" "validate_ApproveRejectRequest input = []"
    using valid_decision by blast+
  with h show "fst (ApproveRejectLeave db c leaveID input) =
           JSON StatusBadRequest (ErrorBody ''Leave request has already been processed'')"
    using ApproveRejectLeave_processed(2) by blast
next
  assume h: "ApproveRejectLeave db c leaveID input = (JSON StatusOK b, db') \<and>
       ar_Action input' \<in> {''approve'', ''reject''} \<and> ar_Remarks input' = Some r'
         \<and> length r' \<le> 200"
  then have v: "bind_ApproveRejectRequest input' = []"
    "validate_ApproveRejectRequest input' = []"
    using valid_decision by blast+
  from h obtain saved where s: "First_leave db' leaveID = Some saved"
    "lr_Status saved \<noteq> ''pending''"
    using decided_leave by blast
  from ApproveRejectLeave_processed [OF s, where c = c' and input = input'] v
  show "ApproveRejectLeave db' c' leaveID input' =
           (JSON StatusBadRequest (ErrorBody ''Leave request has already been processed''), db')"
    by (simp add: prod_eq_iff)
qed

theorem C2_decide_processed_conflict_witness:
  "First_leave db_approved 1 = Some approved_leave
   \<and> lr_Status approved_leave \<noteq> ''pending''
   \<and> ApproveRejectLeave db_approved (ctx 2 RoleFaculty (day 739332)) 1
        \<lparr>ar_Action = ''reject'', ar_Remarks = Some ''late''\<rparr>
      = (JSON StatusBadRequest (ErrorBody ''Leave request has already been processed''),
         db_approved)
   \<and> fst (ApproveRejectLeave db_pending (ctx 2 RoleFaculty (day 739318)) 1
        \<lparr>ar_Action = ''approve'', ar_Remarks = Some ''ok''\<rparr>)
      = JSON StatusOK (LeaveUpdated
          (pending_leave\<lparr>lr_Status := ''approved'', lr_ApprovedBy := Some 2,
                         lr_Remarks := Some ''ok'', lr_UpdatedAt := day 739318\<rparr>))
   \<and> ApproveRejectLeave
        (snd (ApproveRejectLeave db_pending (ctx 2 RoleFaculty (day 739318)) 1
                \<lparr>ar_Action = ''approve'', ar_Remarks = Some ''ok''\<rparr>))
        (ctx 2 RoleFaculty (day 739318 + Hour)) 1
        \<lparr>ar_Action = ''reject'', ar_Remarks = Some ''late''\<rparr>
      = (JSON StatusBadRequest (ErrorBody ''Leave request has already been processed''),
         snd (ApproveRejectLeave db_pending (ctx 2 RoleFaculty (day 739318)) 1
                \<lparr>ar_Action = ''approve'', ar_Remarks = Some ''ok''\<rparr>))"
proof -
  have f: "First_leave db_approved 1 = Some approved_leave"
    by (simp add: First_leave_def sample_defs)
  have p: "lr_Status approved_leave \<noteq> ''pending''"
    by (simp add: approved_leave_def)
  have v: "ar_Action \<lparr>ar_Action = ''reject'', ar_Remarks = Some ''late''\<rparr>
             \<in> {''approve'', ''reject''}
           \<and> ar_Remarks \<lparr>ar_Action = ''reject'', ar_Remarks = Some ''late''\<rparr> = Some ''late''
           \<and> length ''late'' \<le> 200"
    by simp
  have okf: "fst (ApproveRejectLeave db_pending (ctx 2 RoleFaculty (day 739318)) 1
        \<lparr>ar_Action = ''approve'', ar_Remarks = Some ''ok''\<rparr>)
      = JSON StatusOK (LeaveUpdated
          (pending_leave\<lparr>lr_Status := ''approved'', lr_ApprovedBy := Some 2,
                         lr_Remarks := Some ''ok'', lr_UpdatedAt := day 739318\<rparr>))"
    by (simp add: eval_defs)
  then have ok: "ApproveRejectLeave db_pending (ctx 2 RoleFaculty (day 739318)) 1
        \<lparr>ar_Action = ''approve'', ar_Remarks = Some ''ok''\<rparr>
      = (JSON StatusOK (LeaveUpdated
          (pending_leave\<lparr>lr_Status := ''approved'', lr_ApprovedBy := Some 2,
                         lr_Remarks := Some ''ok'', lr_UpdatedAt := day 739318\<rparr>)),
         snd (ApproveRejectLeave db_pending (ctx 2 RoleFaculty (day 739318)) 1
                \<lparr>ar_Action = ''approve'', ar_Remarks = Some ''ok''\<rparr>))"
    by (simp add: prod_eq_iff)
  have first: "ApproveRejectLeave db_approved (ctx 2 RoleFaculty (day 739332)) 1
        \<lparr>ar_Action = ''reject'', ar_Remarks = Some ''late''\<rparr>
      = (JSON StatusBadRequest (ErrorBody ''Leave request has already been processed''),
         db_approved)"
    using C2_decide_processed_conflict
      [where db = db_approved and leaveID = 1 and leave = approved_leave
         and c = "ctx 2 RoleFaculty (day 739332)"
         and input = "\<lparr>ar_Action = ''reject'', ar_Remarks = Some ''late''\<rparr>"
         and r = "''late''"]
      f p v
    by (simp add: prod_eq_iff)
  have second: "ApproveRejectLeave
        (snd (ApproveRejectLeave db_pending (ctx 2 RoleFaculty (day 739318)) 1
                \<lparr>ar_Action = ''approve'', ar_Remarks = Some ''ok''\<rparr>))
        (ctx 2 RoleFaculty (day 739318 + Hour)) 1
        \<lparr>ar_Action = ''reject'', ar_Remarks = Some ''late''\<rparr>
      = (JSON StatusBadRequest (ErrorBody ''Leave request has already been processed''),
         snd (ApproveRejectLeave db_pending (ctx 2 RoleFaculty (day 739318)) 1
                \<lparr>ar_Action = ''approve'', ar_Remarks = Some ''ok''\<rparr>))"
    using C2_decide_processed_conflict
      [where db = db_pending and leaveID = 1
         and c = "ctx 2 RoleFaculty (day 739318)"
         and input = "\<lparr>ar_Action = ''approve'', ar_Remarks = Some ''ok''\<rparr>"
         and c' = "ctx 2 RoleFaculty (day 739318 + Hour)"
         and input' = "\<lparr>ar_Action = ''reject'', ar_Remarks = Some ''late''\<rparr>"
         and r' = "''late''"]
      ok v
    by blast
  show ?thesis
    by (intro conjI; fact)
qed

text \<open>
  C3 (the code departs from the claim). The claim: a student can never decide a leave.
  The restrictions of \<open>ApproveRejectLeave\<close> have a branch for faculty and one for
  wardens; any other role falls through to the update, and the router puts no role
  check before the handler. Student 1 approves their own pending leave: the answer is
  200, the record is approved and its approver is the student.
\<close>

theorem C3_student_approves_own_leave:
  "u_Role student_A = RoleStudent \<and> lr_StudentID pending_leave = u_ID student_A
   \<and> ApproveRejectLeave db_pending (ctx 1 RoleStudent (day 739318)) 1
        \<lparr>ar_Action = ''approve'', ar_Remarks = Some ''ok''\<rparr>
      = (JSON StatusOK (LeaveUpdated
           (pending_leave\<lparr>lr_Status := ''approved'', lr_ApprovedBy := Some 1,
                          lr_Remarks := Some ''ok'', lr_UpdatedAt := day 739318\<rparr>)),
         db_pending\<lparr>leave_requests :=
             [pending_leave\<lparr>lr_Status := ''approved'', lr_ApprovedBy := Some 1,
                            lr_Remarks := Some ''ok'', lr_UpdatedAt := day 739318\<rparr>],
           notifications :=
             [\<lparr>nt_ID = 1, nt_UserID = 1, nt_Title = ''Leave Request approved'',
               nt_Message = LeaveStatusMessage ''medical'' (day 739319) (day 739321)
                              ''approved'' (Some ''ok''),
               nt_Type = ''leave_status'', nt_IsRead = False, nt_RelatedID = Some 1,
               nt_CreatedAt = day 739318\<rparr>]\<rparr>)"
  by (simp add: eval_defs)

section \<open>Scope of wardens and of unknown roles\<close>

text \<open>
  C4 (the code departs from the claim). The claim: a warden without a hostel is denied
  with 403 by every scoped operation, and the scope decision never panics.
  \<open>GetLeaveDetails\<close> and \<open>ApproveRejectLeave\<close> test the warden's hostel for nil before
  they compare it; \<open>ListLeaves\<close> dereferences it untested. For warden 3, whose hostel
  is nil, viewing and deciding leave 1 are answered 403 and listing panics.
\<close>

theorem C4_warden_without_hostel_list_panics:
  "u_Role warden_W = RoleWarden \<and> u_Hostel warden_W = None
   \<and> GetLeaveDetails db_pending (ctx 3 RoleWarden (day 739318)) 1
      = JSON StatusForbidden (ErrorBody ''You can only view leaves from your hostel'')
   \<and> ApproveRejectLeave db_pending (ctx 3 RoleWarden (day 739318)) 1
        \<lparr>ar_Action = ''approve'', ar_Remarks = Some ''ok''\<rparr>
      = (JSON StatusForbidden (ErrorBody ''You can only approve leaves from your hostel''),
         db_pending)
   \<and> ListLeaves db_pending (ctx 3 RoleWarden (day 739318)) = Panic"
  by (simp add: eval_defs)

text \<open>
  C9 (the code departs from the claim). The claim: an actor whose role is none of the
  four is denied by List and by Get. \<open>ListLeaves\<close> ends its role dispatch with a 403;
  \<open>GetLeaveDetails\<close> has branches for student, faculty and warden and no final one, so
  any other role reaches the 200. For the role "guest", listing is answered 403 and
  viewing leave 1 returns the record.
\<close>

theorem C9_unknown_role_reads_leave:
  "''guest'' \<notin> set [RoleAdmin, RoleStudent, RoleFaculty, RoleWarden]
   \<and> ListLeaves db_pending (ctx 9 ''guest'' (day 739318))
      = JSON StatusForbidden (ErrorBody ''Forbidden'')
   \<and> GetLeaveDetails db_pending (ctx 9 ''guest'' (day 739318)) 1
      = JSON StatusOK (LeaveDetails pending_leave)"
  by (simp add: eval_defs)

section \<open>Marking and viewing attendance\<close>

text \<open>
  C6 (the code departs from the claim). The claim: on a day covered by an approved
  leave, marking the student present is rejected with the leave's details and marking
  the student absent is accepted. The field \<open>Present\<close> of \<open>MarkAttendanceRequest\<close> is a
  \<open>bool\<close> tagged \<open>binding:"required"\<close>, which fails on \<open>false\<close>, so a request with
  present = false never gets past \<open>ShouldBindJSON\<close>. Student 1 has an approved leave
  for 2025-04-01 to 2025-04-03 and no attendance record: marking 2025-04-02 present is
  answered 400 with the leave's type, reason and range; marking it absent is answered
  400 on the tag \<open>required\<close> and no record is created.
\<close>

theorem C6_absent_mark_fails_binding:
  "lr_StudentID approved_leave = 1 \<and> lr_Status approved_leave = ''approved''
   \<and> lr_StartDate approved_leave \<le> day 739342 \<and> day 739342 \<le> lr_EndDate approved_leave
   \<and> attendances db_approved = []
   \<and> MarkAttendance db_approved (ctx 2 RoleFaculty (day 739342 + 9 * Hour))
        \<lparr>ma_StudentID = 1, ma_Date = day 739342, ma_Present = True,
         ma_Subject = Some ''Maths'', ma_Period = Some ''1''\<rparr>
      = (JSON StatusBadRequest
           (LeaveConflict ''Student has approved leave for this date''
              ''medical'' ''fever and rest'' (day 739341) (day 739343)), db_approved)
   \<and> MarkAttendance db_approved (ctx 2 RoleFaculty (day 739342 + 9 * Hour))
        \<lparr>ma_StudentID = 1, ma_Date = day 739342, ma_Present = False,
         ma_Subject = Some ''Maths'', ma_Period = Some ''1''\<rparr>
      = (JSON StatusBadRequest (BindError [(''Present'', ''required'')]), db_approved)"
  by (simp add: eval_defs)

text \<open>
  C7 (the code departs from the claim). The claim: a second Mark for the same student
  and date is rejected as already marked whatever its present value. Student 1 is marked
  present on 2025-04-01. A second request with present = true is answered 400
  "Attendance already marked for this date"; a second request with present = false is
  answered 400 on the tag \<open>required\<close> of \<open>Present\<close>, before the handler looks for an
  existing record. Neither creates a record.
\<close>

theorem C7_second_absent_mark_fails_binding:
  "fst (MarkAttendance db_pending (ctx 2 RoleFaculty (day 739341 + 9 * Hour))
        \<lparr>ma_StudentID = 1, ma_Date = day 739341, ma_Present = True,
         ma_Subject = Some ''Maths'', ma_Period = Some ''1''\<rparr>)
      = JSON StatusCreated (AttendanceMarked
          \<lparr>at_ID = 1, at_StudentID = 1, at_Date = day 739341, at_Present = True,
           at_MarkedBy = 2, at_Subject = Some ''Maths'', at_Period = Some ''1'',
           at_CreatedAt = day 739341 + 9 * Hour\<rparr>)
   \<and> MarkAttendance
        (snd (MarkAttendance db_pending (ctx 2 RoleFaculty (day 739341 + 9 * Hour))
                \<lparr>ma_StudentID = 1, ma_Date = day 739341, ma_Present = True,
                 ma_Subject = Some ''Maths'', ma_Period = Some ''1''\<rparr>))
        (ctx 2 RoleFaculty (day 739341 + 10 * Hour))
        \<lparr>ma_StudentID = 1, ma_Date = day 739341, ma_Present = True,
         ma_Subject = Some ''Maths'', ma_Period = Some ''1''\<rparr>
      = (JSON StatusBadRequest (ErrorBody ''Attendance already marked for this date''),
         snd (MarkAttendance db_pending (ctx 2 RoleFaculty (day 739341 + 9 * Hour))
                \<lparr>ma_StudentID = 1, ma_Date = day 739341, ma_Present = True,
                 ma_Subject = Some ''Maths'', ma_Period = Some ''1''\<rparr>))
   \<and> MarkAttendance
        (snd (MarkAttendance db_pending (ctx 2 RoleFaculty (day 739341 + 9 * Hour))
                \<lparr>ma_StudentID = 1, ma_Date = day 739341, ma_Present = True,
                 ma_Subject = Some ''Maths'', ma_Period = Some ''1''\<rparr>))
        (ctx 2 RoleFaculty (day 739341 + 10 * Hour))
        \<lparr>ma_StudentID = 1, ma_Date = day 739341, ma_Present = False,
         ma_Subject = Some ''Maths'', ma_Period = Some ''1''\<rparr>
      = (JSON StatusBadRequest (BindError [(''Present'', ''required'')]),
         snd (MarkAttendance db_pending (ctx 2 RoleFaculty (day 739341 + 9 * Hour))
                \<lparr>ma_StudentID = 1, ma_Date = day 739341, ma_Present = True,
                 ma_Subject = Some ''Maths'', ma_Period = Some ''1''\<rparr>))"
  by (simp add: eval_defs)

text \<open>
  C10. For an actor whose role is not student and a \<open>student_id\<close> parameter that is
  not empty, \<open>ViewAttendance\<close> and \<open>GetStats\<close> give the answer that student 1 would
  get for themselves, and the answer is the same for every other non-empty value of the
  parameter.
\<close>

theorem C10_student_id_ignored:
  assumes "role c \<noteq> RoleStudent" and "q_student_id c \<noteq> []"
  shows "ViewAttendance parse db c
           = ViewAttendance parse db (c\<lparr>role := RoleStudent, userID := Some 1\<rparr>)
     \<and> GetStats db c = GetStats db (c\<lparr>role := RoleStudent, userID := Some 1\<rparr>)
     \<and> (sid \<noteq> [] \<longrightarrow>
          ViewAttendance parse db (c\<lparr>q_student_id := sid\<rparr>) = ViewAttendance parse db c
          \<and> GetStats db (c\<lparr>q_student_id := sid\<rparr>) = GetStats db c)"
  using assms by (simp add: ViewAttendance_def GetStats_def)

theorem C10_student_id_ignored_witness:
  "role ((ctx 2 RoleFaculty (day 739342))\<lparr>q_student_id := ''4''\<rparr>) \<noteq> RoleStudent
   \<and> q_student_id ((ctx 2 RoleFaculty (day 739342))\<lparr>q_student_id := ''4''\<rparr>) \<noteq> []
   \<and> ViewAttendance (\<lambda>s. None) db_attendance
        ((ctx 2 RoleFaculty (day 739342))\<lparr>q_student_id := ''4''\<rparr>)
      = JSON StatusOK (AttendanceList
          [\<lparr>at_ID = 1, at_StudentID = 1, at_Date = day 739341, at_Present = True,
            at_MarkedBy = 2, at_Subject = Some ''Maths'', at_Period = Some ''1'',
            at_CreatedAt = day 739341 + 9 * Hour\<rparr>] [] [] [])
   \<and> GetStats db_attendance ((ctx 2 RoleFaculty (day 739342))\<lparr>q_student_id := ''4''\<rparr>)
      = JSON StatusOK (StatsBody
          \<lparr>st_StudentID = 1, st_StudentName = ''A'', st_TotalDays = 1, st_PresentDays = 1,
           st_AbsentDays = 0, st_AttendancePercentage = 100,
           st_LastAttendance = Some (day 739341)\<rparr>)
   \<and> ViewAttendance (\<lambda>s. None) db_attendance
        ((ctx 2 RoleFaculty (day 739342))\<lparr>q_student_id := ''1''\<rparr>)
      = ViewAttendance (\<lambda>s. None) db_attendance
        ((ctx 2 RoleFaculty (day 739342))\<lparr>q_student_id := ''4''\<rparr>)"
proof -
  have r: "role ((ctx 2 RoleFaculty (day 739342))\<lparr>q_student_id := ''4''\<rparr>) \<noteq> RoleStudent"
    by (simp add: ctx_def role_defs)
  have q: "q_student_id ((ctx 2 RoleFaculty (day 739342))\<lparr>q_student_id := ''4''\<rparr>) \<noteq> []"
    by simp
  have own: "ViewAttendance (\<lambda>s. None) db_attendance
        ((ctx 2 RoleFaculty (day 739342))
           \<lparr>q_student_id := ''4'', role := RoleStudent, userID := Some 1\<rparr>)
      = JSON StatusOK (AttendanceList
          [\<lparr>at_ID = 1, at_StudentID = 1, at_Date = day 739341, at_Present = True,
            at_MarkedBy = 2, at_Subject = Some ''Maths'', at_Period = Some ''1'',
            at_CreatedAt = day 739341 + 9 * Hour\<rparr>] [] [] [])"
    "GetStats db_attendance
        ((ctx 2 RoleFaculty (day 739342))
           \<lparr>q_student_id := ''4'', role := RoleStudent, userID := Some 1\<rparr>)
      = JSON StatusOK (StatsBody
          \<lparr>st_StudentID = 1, st_StudentName = ''A'', st_TotalDays = 1, st_PresentDays = 1,
           st_AbsentDays = 0, st_AttendancePercentage = 100,
           st_LastAttendance = Some (day 739341)\<rparr>)"
    by (simp_all add: eval_defs)
  show ?thesis
    using C10_student_id_ignored [OF r q, of "\<lambda>s. None" db_attendance "''1''"] r q own
    by simp
qed

end
